theory Spec2Isabelle
  imports Complex_Main "HOL-Library.AList"
begin

section \<open>Data model\<close>

text \<open>
  The two record classes of \<^verbatim>\<open>main.py\<close> (lines 176-180 and 197-199). A field declared
  \<^verbatim>\<open>Union[T, None] = None\<close> is an option. Python's \<^verbatim>\<open>float\<close> is kept abstract (the type
  variable \<open>'f\<close>): the program stores and returns these values and never computes with them.
  A \<open>string\<close> stands for a Python \<^verbatim>\<open>str\<close>, one \<open>char\<close> per character.
\<close>

record 'f Item =
  name :: string
  description :: "string option"
  price :: 'f
  tax :: "'f option"

record User =
  username :: string
  full_name :: "string option"

text \<open>
  Python values that the handlers build and return. A dictionary literal nested in a
  result is a \<open>PDict\<close> (an association list in insertion order); the \<^verbatim>\<open>results\<close> dictionary of
  a handler is an object that the handler updates in place, so it lives in a heap and the
  handler returns a reference \<open>PRef\<close> to it.
\<close>

datatype 'f pyval =
    PNone
  | PInt int
  | PStr string
  | PList "'f pyval list"
  | PDict "(string \<times> 'f pyval) list"
  | PItem "'f Item"
  | PUser User
  | PRef nat

type_synonym 'f dict = "(string \<times> 'f pyval) list"

type_synonym 'f heap = "'f dict list"

type_synonym 'f handler = "'f heap \<Rightarrow> 'f pyval \<times> 'f heap"

section \<open>Dictionaries on the heap\<close>

text \<open>Evaluating a dictionary display allocates a fresh object (the next free address).\<close>

definition new_dict :: "'f dict \<Rightarrow> 'f heap \<Rightarrow> nat \<times> 'f heap" where
  "new_dict d h = (length h, h @ [d])"

text \<open>
  \<^verbatim>\<open>d.update(other)\<close>: every pair of \<open>other\<close> is stored in the object at address \<open>a\<close>; an
  existing key keeps its place, a new key goes last. An address that is not allocated
  cannot arise from \<open>new_dict\<close>; the heap is then left as it is.
\<close>

definition dict_update :: "nat \<Rightarrow> 'f dict \<Rightarrow> 'f heap \<Rightarrow> 'f heap" where
  "dict_update a other h =
     (if a < length h then h[a := foldl (\<lambda>d (k, v). AList.update k v d) (h ! a) other] else h)"

text \<open>
  The value a handler hands back to the framework, with the returned dictionary read from
  the heap: what is serialized as the response body.
\<close>

definition returned :: "'f pyval \<times> 'f heap \<Rightarrow> 'f pyval" where
  "returned r =
     (case r of (v, h) \<Rightarrow>
        (case v of PRef a \<Rightarrow> (if a < length h then PDict (h ! a) else PNone) | _ \<Rightarrow> v))"

section \<open>Truthiness and conversions\<close>

text \<open>
  \<^verbatim>\<open>if q:\<close> tests Python truthiness: \<^verbatim>\<open>None\<close> and the empty string are false, any other
  string is true. An instance of a model class is always true.
\<close>

definition truthy_str :: "string \<Rightarrow> bool" where
  "truthy_str s \<longleftrightarrow> s \<noteq> []"

definition truthy_opt_str :: "string option \<Rightarrow> bool" where
  "truthy_opt_str q = (case q of None \<Rightarrow> False | Some s \<Rightarrow> truthy_str s)"

definition truthy_opt_item :: "'f Item option \<Rightarrow> bool" where
  "truthy_opt_item item = (case item of None \<Rightarrow> False | Some _ \<Rightarrow> True)"

definition py_opt_str :: "string option \<Rightarrow> 'f pyval" where
  "py_opt_str q = (case q of None \<Rightarrow> PNone | Some s \<Rightarrow> PStr s)"

definition py_opt_str_list :: "string list option \<Rightarrow> 'f pyval" where
  "py_opt_str_list q = (case q of None \<Rightarrow> PNone | Some xs \<Rightarrow> PList (map PStr xs))"

definition py_opt_item :: "'f Item option \<Rightarrow> 'f pyval" where
  "py_opt_item item = (case item of None \<Rightarrow> PNone | Some i \<Rightarrow> PItem i)"

section \<open>The route handlers\<close>

text \<open>
  One definition per \<^verbatim>\<open>async def\<close> of \<^verbatim>\<open>main.py\<close>, in source order. The source binds the
  name \<^verbatim>\<open>read_items\<close> four times and \<^verbatim>\<open>update_item\<close> twice; those definitions carry the
  line of their \<^verbatim>\<open>def\<close>.
\<close>

definition read_items_L10 :: "string option \<Rightarrow> 'f handler" where
  "read_items_L10 q h0 =
     (let (results, h1) = new_dict [(''items'',
            PList [PDict [(''item_id'', PStr ''Foo'')], PDict [(''item_id'', PStr ''Bar'')]])] h0;
          h2 = (if truthy_opt_str q then dict_update results [(''q'', py_opt_str q)] h1 else h1)
      in (PRef results, h2))"

definition read_items2 :: "string \<Rightarrow> 'f handler" where
  "read_items2 q h0 =
     (let (results, h1) = new_dict [(''items'',
            PList [PDict [(''item_id'', PStr ''Foo'')], PDict [(''item_id'', PStr ''Bar'')]])] h0;
          h2 = (if truthy_str q then dict_update results [(''q'', PStr q)] h1 else h1)
      in (PRef results, h2))"

definition read_items3 :: "string \<Rightarrow> 'f handler" where
  "read_items3 q h0 =
     (let (results, h1) = new_dict [(''items'',
            PList [PDict [(''item_id'', PStr ''Foo'')], PDict [(''item_id'', PStr ''Bar'')]])] h0;
          h2 = (if truthy_str q then dict_update results [(''q'', PStr q)] h1 else h1)
      in (PRef results, h2))"

definition read_items_L34 :: "string \<Rightarrow> 'f handler" where
  "read_items_L34 q h0 =
     (let (results, h1) = new_dict [(''items'',
            PList [PDict [(''item_id'', PStr ''Foo'')], PDict [(''item_id'', PStr ''Bar'')]])] h0;
          h2 = (if truthy_str q then dict_update results [(''q'', PStr q)] h1 else h1)
      in (PRef results, h2))"

definition read_items_L45 :: "string list option \<Rightarrow> 'f handler" where
  "read_items_L45 q h0 =
     (let (query_items, h1) = new_dict [(''q'', py_opt_str_list q)] h0
      in (PRef query_items, h1))"

definition read_readers :: "string option \<Rightarrow> 'f handler" where
  "read_readers q h0 =
     (let (results, h1) = new_dict [(''readers'',
            PList [PDict [(''reader_id'', PStr ''Foo'')], PDict [(''reader_id'', PStr ''Bar'')]])] h0;
          h2 = (if truthy_opt_str q then dict_update results [(''q'', py_opt_str q)] h1 else h1)
      in (PRef results, h2))"

definition read_readers_alias :: "string option \<Rightarrow> 'f handler" where
  "read_readers_alias q h0 =
     (let (results, h1) = new_dict [(''readers'',
            PList [PDict [(''reader_id'', PStr ''Foo'')], PDict [(''reader_id'', PStr ''Bar'')]])] h0;
          h2 = (if truthy_opt_str q then dict_update results [(''q'', py_opt_str q)] h1 else h1)
      in (PRef results, h2))"

definition read_posts :: "string option \<Rightarrow> 'f handler" where
  "read_posts q h0 =
     (let (results, h1) = new_dict [(''posts'',
            PList [PDict [(''post_id'', PStr ''Foo'')], PDict [(''post_id'', PStr ''Bar'')]])] h0;
          h2 = (if truthy_opt_str q then dict_update results [(''q'', py_opt_str q)] h1 else h1)
      in (PRef results, h2))"

text \<open>Line 137 of the source is \<^verbatim>\<open>return q\<close>: the handler hands back \<open>q\<close>, not \<open>results\<close>.\<close>

definition read_item :: "int \<Rightarrow> string option \<Rightarrow> 'f handler" where
  "read_item item_id q h0 =
     (let (results, h1) = new_dict [(''item_id'', PInt item_id)] h0;
          h2 = (if truthy_opt_str q then dict_update results [(''q'', py_opt_str q)] h1 else h1)
      in (py_opt_str q, h2))"

definition read_items_L150 :: "string \<Rightarrow> int \<Rightarrow> 'f handler" where
  "read_items_L150 q item_id h0 =
     (let (results, h1) = new_dict [(''item_id'', PInt item_id)] h0;
          h2 = (if truthy_str q then dict_update results [(''q'', PStr q)] h1 else h1)
      in (PRef results, h2))"

definition read_items1 :: "int \<Rightarrow> string \<Rightarrow> 'f handler" where
  "read_items1 item_id q h0 =
     (let (results, h1) = new_dict [(''item_id'', PInt item_id)] h0;
          h2 = (if truthy_str q then dict_update results [(''q'', PStr q)] h1 else h1)
      in (PRef results, h2))"

definition update_item_L184 :: "int \<Rightarrow> string option \<Rightarrow> 'f Item option \<Rightarrow> 'f handler" where
  "update_item_L184 item_id q item h0 =
     (let (results, h1) = new_dict [(''item_id'', PInt item_id)] h0;
          h2 = (if truthy_opt_str q then dict_update results [(''q'', py_opt_str q)] h1 else h1);
          h3 = (if truthy_opt_item item then dict_update results [(''item'', py_opt_item item)] h2
                else h2)
      in (PRef results, h3))"

definition update_item_L203 :: "int \<Rightarrow> 'f Item \<Rightarrow> User \<Rightarrow> 'f handler" where
  "update_item_L203 item_id item user h0 =
     (let (results, h1) =
            new_dict [(''item_id'', PInt item_id), (''item'', PItem item), (''user'', PUser user)] h0
      in (PRef results, h1))"

definition singular_value :: "int \<Rightarrow> 'f Item \<Rightarrow> User \<Rightarrow> int \<Rightarrow> 'f handler" where
  "singular_value item_id item user foo h0 =
     (let (results, h1) =
            new_dict [(''item_id'', PInt item_id), (''item'', PItem item), (''user'', PUser user),
              (''foo'', PInt foo)] h0
      in (PRef results, h1))"

section \<open>Declared constraints and their enforcement\<close>

text \<open>
  The routes, one per \<^verbatim>\<open>@app.get\<close> / \<^verbatim>\<open>@app.put\<close> of the source, in source order; each name
  carries the line of its decorator.
\<close>

datatype route =
    Items_L9
  | Items2_L17
  | Items3_L25
  | Items_L33
  | Items_list_L44
  | Readers_L52
  | Readers_alias_L62
  | Posts_L77
  | Item_L131
  | Item_L149
  | Items1_L165
  | Put_item_L183
  | Put_item_L202
  | Singular_L216

text \<open>
  What the source passes to \<^verbatim>\<open>Query(...)\<close> and \<^verbatim>\<open>Path(...)\<close>. A parameter with no default,
  with \<^verbatim>\<open>default=...\<close> or with \<^verbatim>\<open>default=Required\<close> is required. Titles, descriptions, aliases
  and the deprecation flag constrain nothing and are left out.
\<close>

record query_decl =
  required :: bool
  min_length :: "nat option"
  max_length :: "nat option"
  regex :: "string option"

record path_decl =
  gt :: "int option"
  ge :: "int option"
  lt :: "int option"
  le :: "int option"

fun q_decl :: "route \<Rightarrow> query_decl option" where
  "q_decl Items_L9 = Some \<lparr>required = False, min_length = Some 3, max_length = Some 50,
     regex = Some ''^fixedquery$''\<rparr>"
| "q_decl Items2_L17 = Some \<lparr>required = True, min_length = Some 3, max_length = None,
     regex = None\<rparr>"
| "q_decl Items3_L25 = Some \<lparr>required = True, min_length = Some 3, max_length = None,
     regex = None\<rparr>"
| "q_decl Items_L33 = Some \<lparr>required = True, min_length = Some 3, max_length = None,
     regex = None\<rparr>"
| "q_decl Items_list_L44 = None"
| "q_decl Readers_L52 = Some \<lparr>required = False, min_length = Some 3, max_length = None,
     regex = None\<rparr>"
| "q_decl Readers_alias_L62 = Some \<lparr>required = False, min_length = Some 3, max_length = None,
     regex = None\<rparr>"
| "q_decl Posts_L77 = Some \<lparr>required = False, min_length = Some 3, max_length = Some 50,
     regex = Some ''^fixedquery$''\<rparr>"
| "q_decl Item_L131 = Some \<lparr>required = False, min_length = None, max_length = None,
     regex = None\<rparr>"
| "q_decl Item_L149 = Some \<lparr>required = True, min_length = None, max_length = None,
     regex = None\<rparr>"
| "q_decl Items1_L165 = Some \<lparr>required = True, min_length = None, max_length = None,
     regex = None\<rparr>"
| "q_decl Put_item_L183 = Some \<lparr>required = False, min_length = None, max_length = None,
     regex = None\<rparr>"
| "q_decl Put_item_L202 = None"
| "q_decl Singular_L216 = None"

fun p_decl :: "route \<Rightarrow> path_decl option" where
  "p_decl Item_L131 = Some \<lparr>gt = None, ge = None, lt = None, le = None\<rparr>"
| "p_decl Item_L149 = Some \<lparr>gt = None, ge = None, lt = None, le = None\<rparr>"
| "p_decl Items1_L165 = Some \<lparr>gt = Some 1, ge = None, lt = None, le = None\<rparr>"
| "p_decl Put_item_L183 = Some \<lparr>gt = None, ge = Some 0, lt = None, le = Some 1000\<rparr>"
| "p_decl Put_item_L202 = Some \<lparr>gt = None, ge = None, lt = None, le = None\<rparr>"
| "p_decl Singular_L216 = Some \<lparr>gt = None, ge = None, lt = None, le = None\<rparr>"
| "p_decl _ = None"

datatype verror =
    Missing
  | Invalid_body
  | Too_short
  | Too_long
  | No_regex_match
  | Not_gt
  | Not_ge
  | Not_lt
  | Not_le

text \<open>
  The pattern that the source declares, \<^verbatim>\<open>^fixedquery$\<close>, is a regular expression of Python's
  \<^verbatim>\<open>re\<close> module, applied as \<^verbatim>\<open>re.match\<close> does: the match starts at the first character of
  the value and need not consume all of it. The model covers the syntax that this pattern
  uses. \<^verbatim>\<open>^\<close> matches at the start of the string; an ordinary character matches itself;
  \<^verbatim>\<open>$\<close> matches at the end of the string and also just before a newline that is the last
  character of the string. Every character other than \<^verbatim>\<open>^\<close> and \<^verbatim>\<open>$\<close> is read as an ordinary
  one, which is right for the letters of the source's pattern.
\<close>

datatype re_tok = Caret | Dollar | Lit char

definition re_parse :: "string \<Rightarrow> re_tok list" where
  "re_parse p =
     map (\<lambda>c. if c = CHR ''^'' then Caret else if c = CHR ''$'' then Dollar else Lit c) p"

fun re_match_at :: "re_tok list \<Rightarrow> bool \<Rightarrow> string \<Rightarrow> bool" where
  "re_match_at [] at_start s = True"
| "re_match_at (Caret # ts) at_start s = (at_start \<and> re_match_at ts at_start s)"
| "re_match_at (Dollar # ts) at_start s =
     ((s = [] \<or> s = [CHR 0x0A]) \<and> re_match_at ts at_start s)"
| "re_match_at (Lit c # ts) at_start s =
     (case s of [] \<Rightarrow> False | d # s' \<Rightarrow> d = c \<and> re_match_at ts False s')"

definition re_match :: "string \<Rightarrow> string \<Rightarrow> bool" where
  "re_match p s = re_match_at (re_parse p) True s"

text \<open>
  Modelled from the spec: the validation of request parameters against the declared
  constraints, which the web framework does and the repository does not contain. The spec
  says that a value shorter than \<^verbatim>\<open>min_length\<close> is rejected with a 422 response, and that
  invalid input makes the framework produce an automatic error response, from the declared
  constraints, before any handler code runs. The comparisons are named in the source's
  comment at lines 157-164 (\<^verbatim>\<open>gt\<close>: greater than, \<^verbatim>\<open>lt\<close>: less than, \<^verbatim>\<open>le\<close>: less than or
  equal, \<^verbatim>\<open>ge\<close>: greater than or equal). The definitions \<open>check_str\<close>, \<open>query_param\<close>,
  \<open>path_param\<close>, \<open>need\<close>, \<open>body_item_opt\<close>, \<open>body_user_opt\<close>, \<open>query_of\<close>, \<open>path_of\<close>,
  \<open>bound_handler\<close>, \<open>status_code\<close> and \<open>serve\<close> are this model; the handlers they call are
  the source's.
\<close>

definition check_str :: "query_decl \<Rightarrow> string \<Rightarrow> verror + string" where
  "check_str d s =
     (if (case min_length d of None \<Rightarrow> False | Some n \<Rightarrow> length s < n) then Inl Too_short
      else if (case max_length d of None \<Rightarrow> False | Some n \<Rightarrow> n < length s) then Inl Too_long
      else if (case regex d of None \<Rightarrow> False | Some p \<Rightarrow> \<not> re_match p s)
        then Inl No_regex_match
      else Inr s)"

definition query_param :: "query_decl \<Rightarrow> string option \<Rightarrow> verror + string option" where
  "query_param d raw =
     (case raw of
        None \<Rightarrow> (if required d then Inl Missing else Inr None)
      | Some s \<Rightarrow> (case check_str d s of Inl e \<Rightarrow> Inl e | Inr s' \<Rightarrow> Inr (Some s')))"

definition path_param :: "path_decl \<Rightarrow> int \<Rightarrow> verror + int" where
  "path_param d i =
     (if (case gt d of None \<Rightarrow> False | Some b \<Rightarrow> \<not> b < i) then Inl Not_gt
      else if (case ge d of None \<Rightarrow> False | Some b \<Rightarrow> \<not> b \<le> i) then Inl Not_ge
      else if (case lt d of None \<Rightarrow> False | Some b \<Rightarrow> \<not> i < b) then Inl Not_lt
      else if (case le d of None \<Rightarrow> False | Some b \<Rightarrow> \<not> i \<le> b) then Inl Not_le
      else Inr i)"

text \<open>A parameter whose handler argument has no \<^verbatim>\<open>None\<close> (a required one) must be there.\<close>

definition need :: "verror + 'a option \<Rightarrow> verror + 'a" where
  "need r = (case r of Inl e \<Rightarrow> Inl e | Inr None \<Rightarrow> Inl Missing | Inr (Some x) \<Rightarrow> Inr x)"

definition and_then :: "verror + 'a \<Rightarrow> ('a \<Rightarrow> verror + 'b) \<Rightarrow> verror + 'b" where
  "and_then r f = (case r of Inl e \<Rightarrow> Inl e | Inr x \<Rightarrow> f x)"

text \<open>
  The constructors of \<^verbatim>\<open>Item\<close> and \<^verbatim>\<open>User\<close> are generated by the validation library from the
  class declarations and are not part of the repository; they are not modelled. A part of
  the request body is taken as that library hands it over: absent (\<open>None\<close>), rejected
  (\<open>Some (Inl Invalid_body)\<close>), or a constructed record (\<open>Some (Inr r)\<close>).
\<close>

definition body_item_opt :: "(verror + 'f Item) option \<Rightarrow> verror + 'f Item option" where
  "body_item_opt b =
     (case b of None \<Rightarrow> Inr None | Some r \<Rightarrow> and_then r (\<lambda>i. Inr (Some i)))"

definition body_user_opt :: "(verror + User) option \<Rightarrow> verror + User option" where
  "body_user_opt b =
     (case b of None \<Rightarrow> Inr None | Some r \<Rightarrow> and_then r (\<lambda>u. Inr (Some u)))"

text \<open>
  A request as the validation receives it: the integer in the path, the value given for
  the route's query parameter \<open>q\<close> (under its alias where the route declares one), the
  values given for a list-valued \<open>q\<close>, and the parts of the body.
\<close>

record 'f request =
  path_item_id :: int
  query_q :: "string option"
  query_q_list :: "string list"
  body_item :: "(verror + 'f Item) option"
  body_user :: "(verror + User) option"
  body_foo :: "int option"

definition query_of :: "route \<Rightarrow> 'f request \<Rightarrow> verror + string option" where
  "query_of r rq = (case q_decl r of None \<Rightarrow> Inr None | Some d \<Rightarrow> query_param d (query_q rq))"

definition path_of :: "route \<Rightarrow> 'f request \<Rightarrow> verror + int" where
  "path_of r rq =
     (case p_decl r of None \<Rightarrow> Inr (path_item_id rq) | Some d \<Rightarrow> path_param d (path_item_id rq))"

text \<open>
  Modelled from the spec: validation either fails or yields the call of the route's handler
  on the validated arguments, in the order and with the parameter kinds of the handler's
  signature in the source; \<open>Inl\<close> means that no handler code runs.
\<close>

fun bound_handler :: "route \<Rightarrow> 'f request \<Rightarrow> verror + 'f handler" where
  "bound_handler Items_L9 rq =
     and_then (query_of Items_L9 rq) (\<lambda>q. Inr (read_items_L10 q))"
| "bound_handler Items2_L17 rq =
     and_then (need (query_of Items2_L17 rq)) (\<lambda>q. Inr (read_items2 q))"
| "bound_handler Items3_L25 rq =
     and_then (need (query_of Items3_L25 rq)) (\<lambda>q. Inr (read_items3 q))"
| "bound_handler Items_L33 rq =
     and_then (need (query_of Items_L33 rq)) (\<lambda>q. Inr (read_items_L34 q))"
| "bound_handler Items_list_L44 rq =
     Inr (read_items_L45 (case query_q_list rq of [] \<Rightarrow> None | x # xs \<Rightarrow> Some (x # xs)))"
| "bound_handler Readers_L52 rq =
     and_then (query_of Readers_L52 rq) (\<lambda>q. Inr (read_readers q))"
| "bound_handler Readers_alias_L62 rq =
     and_then (query_of Readers_alias_L62 rq) (\<lambda>q. Inr (read_readers_alias q))"
| "bound_handler Posts_L77 rq =
     and_then (query_of Posts_L77 rq) (\<lambda>q. Inr (read_posts q))"
| "bound_handler Item_L131 rq =
     and_then (path_of Item_L131 rq) (\<lambda>i.
     and_then (query_of Item_L131 rq) (\<lambda>q. Inr (read_item i q)))"
| "bound_handler Item_L149 rq =
     and_then (path_of Item_L149 rq) (\<lambda>i.
     and_then (need (query_of Item_L149 rq)) (\<lambda>q. Inr (read_items_L150 q i)))"
| "bound_handler Items1_L165 rq =
     and_then (path_of Items1_L165 rq) (\<lambda>i.
     and_then (need (query_of Items1_L165 rq)) (\<lambda>q. Inr (read_items1 i q)))"
| "bound_handler Put_item_L183 rq =
     and_then (path_of Put_item_L183 rq) (\<lambda>i.
     and_then (query_of Put_item_L183 rq) (\<lambda>q.
     and_then (body_item_opt (body_item rq)) (\<lambda>item. Inr (update_item_L184 i q item))))"
| "bound_handler Put_item_L202 rq =
     and_then (path_of Put_item_L202 rq) (\<lambda>i.
     and_then (need (body_item_opt (body_item rq))) (\<lambda>item.
     and_then (need (body_user_opt (body_user rq))) (\<lambda>user.
       Inr (update_item_L203 i item user))))"
| "bound_handler Singular_L216 rq =
     and_then (path_of Singular_L216 rq) (\<lambda>i.
     and_then (need (body_item_opt (body_item rq))) (\<lambda>item.
     and_then (need (body_user_opt (body_user rq))) (\<lambda>user.
     and_then (need (Inr (body_foo rq))) (\<lambda>foo.
       Inr (singular_value i item user foo)))))"

datatype 'f response = Unprocessable verror | Success "'f pyval"

definition status_code :: "'f response \<Rightarrow> nat" where
  "status_code r = (case r of Unprocessable _ \<Rightarrow> 422 | Success _ \<Rightarrow> 200)"

definition serve :: "route \<Rightarrow> 'f request \<Rightarrow> 'f heap \<Rightarrow> 'f response \<times> 'f heap" where
  "serve r rq h =
     (case bound_handler r rq of
        Inl e \<Rightarrow> (Unprocessable e, h)
      | Inr f \<Rightarrow> (let (v, h') = f h in (Success (returned (v, h')), h')))"

section \<open>Statelessness\<close>

text \<open>
  A handler call is stateless when the mapping it returns is the same from every heap
  (it reads nothing that an earlier request left there) and every object that existed
  before the call is unchanged after it (it writes nothing that a later request can see).
\<close>

definition stateless :: "'f handler \<Rightarrow> bool" where
  "stateless f \<longleftrightarrow>
     (\<forall>h h'. returned (f h) = returned (f h')) \<and> (\<forall>h. take (length h) (snd (f h)) = h)"

section \<open>What each handler returns\<close>

lemmas heap_ops = new_dict_def dict_update_def returned_def Let_def
  truthy_str_def truthy_opt_str_def truthy_opt_item_def
  py_opt_str_def py_opt_str_list_def py_opt_item_def

lemmas handler_defs = read_items_L10_def read_items2_def read_items3_def read_items_L34_def
  read_items_L45_def read_readers_def read_readers_alias_def read_posts_def read_item_def
  read_items_L150_def read_items1_def update_item_L184_def update_item_L203_def
  singular_value_def

lemmas validation_defs = query_of_def path_of_def query_param_def path_param_def check_str_def
  and_then_def need_def

lemma returned_read_items_L10:
  "returned (read_items_L10 q h) =
     PDict ((''items'',
         PList [PDict [(''item_id'', PStr ''Foo'')], PDict [(''item_id'', PStr ''Bar'')]])
       # (case q of None \<Rightarrow> [] | Some s \<Rightarrow> if s = [] then [] else [(''q'', PStr s)]))"
  by (simp add: read_items_L10_def heap_ops split: option.splits)

lemma returned_read_items_L45:
  "returned (read_items_L45 q h) =
     PDict [(''q'', case q of None \<Rightarrow> PNone | Some xs \<Rightarrow> PList (map PStr xs))]"
  by (simp add: read_items_L45_def heap_ops)

lemma returned_read_readers:
  "returned (read_readers q h) =
     PDict ((''readers'',
         PList [PDict [(''reader_id'', PStr ''Foo'')], PDict [(''reader_id'', PStr ''Bar'')]])
       # (case q of None \<Rightarrow> [] | Some s \<Rightarrow> if s = [] then [] else [(''q'', PStr s)]))"
  by (simp add: read_readers_def heap_ops split: option.splits)

lemma returned_read_readers_alias:
  "returned (read_readers_alias q h) =
     PDict ((''readers'',
         PList [PDict [(''reader_id'', PStr ''Foo'')], PDict [(''reader_id'', PStr ''Bar'')]])
       # (case q of None \<Rightarrow> [] | Some s \<Rightarrow> if s = [] then [] else [(''q'', PStr s)]))"
  by (simp add: read_readers_alias_def heap_ops split: option.splits)

lemma returned_read_posts:
  "returned (read_posts q h) =
     PDict ((''posts'',
         PList [PDict [(''post_id'', PStr ''Foo'')], PDict [(''post_id'', PStr ''Bar'')]])
       # (case q of None \<Rightarrow> [] | Some s \<Rightarrow> if s = [] then [] else [(''q'', PStr s)]))"
  by (simp add: read_posts_def heap_ops split: option.splits)

lemma returned_update_item_L184:
  "returned (update_item_L184 i q item h) =
     PDict ((''item_id'', PInt i)
       # (case q of None \<Rightarrow> [] | Some s \<Rightarrow> if s = [] then [] else [(''q'', PStr s)])
       @ (case item of None \<Rightarrow> [] | Some it \<Rightarrow> [(''item'', PItem it)]))"
  by (simp add: update_item_L184_def heap_ops split: option.splits)

lemma returned_update_item_L203:
  "returned (update_item_L203 i it u h) =
     PDict [(''item_id'', PInt i), (''item'', PItem it), (''user'', PUser u)]"
  by (simp add: update_item_L203_def heap_ops)

lemma returned_singular_value:
  "returned (singular_value i it u foo h) =
     PDict [(''item_id'', PInt i), (''item'', PItem it), (''user'', PUser u), (''foo'', PInt foo)]"
  by (simp add: singular_value_def heap_ops)

section \<open>The pattern of the source\<close>

lemma re_match_literals:
  "re_match_at (map Lit xs @ ts) b s \<longleftrightarrow>
     (\<exists>rest. s = xs @ rest \<and> re_match_at ts (b \<and> xs = []) rest)"
  by (induction xs arbitrary: b s) (auto split: list.splits)

lemma re_match_anchored_literal:
  "re_match_at (Caret # map Lit xs @ [Dollar]) True s \<longleftrightarrow> s = xs \<or> s = xs @ [CHR 0x0A]"
  by (auto simp: re_match_literals)

lemma fixedquery_matches:
  "re_match ''^fixedquery$'' s \<longleftrightarrow> s = ''fixedquery'' \<or> s = ''fixedquery'' @ [CHR 0x0A]"
proof -
  have p: "re_parse ''^fixedquery$'' = Caret # map Lit ''fixedquery'' @ [Dollar]"
    by (simp add: re_parse_def)
  show ?thesis
    unfolding re_match_def p by (rule re_match_anchored_literal)
qed

section \<open>Serving a request\<close>

lemma serve_Inl: "bound_handler r rq = Inl e \<Longrightarrow> serve r rq h = (Unprocessable e, h)"
  by (simp add: serve_def)

lemma serve_Inr:
  "bound_handler r rq = Inr f \<Longrightarrow> serve r rq h = (Success (returned (f h)), snd (f h))"
  by (simp add: serve_def split_beta)

lemma regex_routes:
  assumes "q_decl r = Some d" and "regex d = Some p"
  shows "(r = Items_L9 \<or> r = Posts_L77) \<and> p = ''^fixedquery$''
     \<and> d = \<lparr>required = False, min_length = Some 3, max_length = Some 50,
            regex = Some ''^fixedquery$''\<rparr>"
  using assms by (cases r) auto

section \<open>The claims\<close>

text \<open>
  C1. The handler \<^verbatim>\<open>read_item\<close> of GET \<^verbatim>\<open>/items/{item_id}\<close> does not return the mapping it
  built: it returns the parameter \<open>q\<close> itself (\<^verbatim>\<open>None\<close> when \<open>q\<close> is absent, the string
  otherwise). With \<open>item_id = 5\<close> and no \<open>q\<close> the value returned is \<^verbatim>\<open>None\<close>, while the
  mapping that the handler built, \<^verbatim>\<open>{"item_id": 5}\<close>, is left behind in the heap. The second
  handler of the same path (line 150) does return its mapping.
\<close>

theorem read_item_returns_q:
  "returned (read_item 5 None h) = PNone
   \<and> returned (read_item 5 (Some ''abc'') h) = PStr ''abc''
   \<and> snd (read_item 5 None h) ! length h = [(''item_id'', PInt 5)]
   \<and> returned (read_item 5 None h) \<noteq> PDict [(''item_id'', PInt 5)]
   \<and> returned (read_items_L150 ''abc'' 5 h) = PDict [(''item_id'', PInt 5), (''q'', PStr ''abc'')]"
  by (simp add: read_item_def read_items_L150_def heap_ops)

text \<open>
  C2, as stated, fails: PUT \<^verbatim>\<open>/items/{item_id}\<close> with an empty string supplied for \<open>q\<close>
  returns a mapping without the key \<^verbatim>\<open>q\<close>, and GET \<^verbatim>\<open>/items_list/\<close> without \<open>q\<close> returns a
  mapping that has the key \<^verbatim>\<open>q\<close> (with value \<^verbatim>\<open>None\<close>).
\<close>

theorem empty_q_supplied_but_left_out:
  "returned (update_item_L184 7 (Some []) None ([] :: real heap)) = PDict [(''item_id'', PInt 7)]
   \<and> returned (read_items_L45 None ([] :: real heap)) = PDict [(''q'', PNone)]"
  by (simp add: returned_update_item_L184 returned_read_items_L45)

text \<open>
  C2, amended. In the handlers of GET \<^verbatim>\<open>/items/\<close> (line 10), \<^verbatim>\<open>/readers/\<close>, \<^verbatim>\<open>/readers_alias/\<close>
  and \<^verbatim>\<open>/posts/\<close> and of PUT \<^verbatim>\<open>/items/{item_id}\<close> (line 184) the returned mapping is the
  canned mapping, followed by \<^verbatim>\<open>q\<close> under the key \<^verbatim>\<open>q\<close> exactly when \<open>q\<close> was supplied and is
  not the empty string (and, for the PUT handler, by the item under the key \<^verbatim>\<open>item\<close>
  exactly when an item was supplied); otherwise it is exactly the canned mapping. The
  handler of GET \<^verbatim>\<open>/items_list/\<close> always returns a mapping with the single key \<^verbatim>\<open>q\<close>, whose
  value is \<^verbatim>\<open>None\<close> when \<open>q\<close> was not supplied and the list of values otherwise.
\<close>

theorem optional_parameter_in_mapping:
  "returned (read_items_L10 q h) =
     PDict ((''items'',
         PList [PDict [(''item_id'', PStr ''Foo'')], PDict [(''item_id'', PStr ''Bar'')]])
       # (case q of None \<Rightarrow> [] | Some s \<Rightarrow> if s = [] then [] else [(''q'', PStr s)]))
   \<and> returned (read_readers q h) =
     PDict ((''readers'',
         PList [PDict [(''reader_id'', PStr ''Foo'')], PDict [(''reader_id'', PStr ''Bar'')]])
       # (case q of None \<Rightarrow> [] | Some s \<Rightarrow> if s = [] then [] else [(''q'', PStr s)]))
   \<and> returned (read_readers_alias q h) =
     PDict ((''readers'',
         PList [PDict [(''reader_id'', PStr ''Foo'')], PDict [(''reader_id'', PStr ''Bar'')]])
       # (case q of None \<Rightarrow> [] | Some s \<Rightarrow> if s = [] then [] else [(''q'', PStr s)]))
   \<and> returned (read_posts q h) =
     PDict ((''posts'',
         PList [PDict [(''post_id'', PStr ''Foo'')], PDict [(''post_id'', PStr ''Bar'')]])
       # (case q of None \<Rightarrow> [] | Some s \<Rightarrow> if s = [] then [] else [(''q'', PStr s)]))
   \<and> returned (update_item_L184 i q item h) =
     PDict ((''item_id'', PInt i)
       # (case q of None \<Rightarrow> [] | Some s \<Rightarrow> if s = [] then [] else [(''q'', PStr s)])
       @ (case item of None \<Rightarrow> [] | Some it \<Rightarrow> [(''item'', PItem it)]))
   \<and> returned (read_items_L45 ql h) =
     PDict [(''q'', case ql of None \<Rightarrow> PNone | Some xs \<Rightarrow> PList (map PStr xs))]"
proof (intro conjI)
  show "returned (read_items_L45 ql h) =
     PDict [(''q'', case ql of None \<Rightarrow> PNone | Some xs \<Rightarrow> PList (map PStr xs))]"
    by (rule returned_read_items_L45)
qed (rule returned_read_items_L10 returned_read_readers returned_read_readers_alias
      returned_read_posts returned_update_item_L184)+

text \<open>
  C4. On every route whose query parameter \<open>q\<close> declares \<^verbatim>\<open>min_length=3\<close>, a request that
  supplies a \<open>q\<close> of fewer than 3 characters is rejected: validation fails, so no handler
  call is made, the response has status 422 and the heap is as it was.
\<close>

theorem short_q_rejected:
  assumes "q_decl r = Some d" and "min_length d = Some 3"
    and "query_q rq = Some s" and "length s < 3"
  shows "bound_handler r rq = Inl Too_short
     \<and> serve r rq h = (Unprocessable Too_short, h)
     \<and> status_code (fst (serve r rq h)) = 422"
proof -
  have "bound_handler r rq = Inl Too_short"
    using assms by (cases r) (auto simp: validation_defs)
  then show ?thesis
    by (simp add: serve_def status_code_def)
qed

theorem short_q_rejected_witness:
  "q_decl Readers_L52 =
     Some \<lparr>required = False, min_length = Some 3, max_length = None, regex = None\<rparr>
   \<and> length ''ab'' < 3
   \<and> serve Readers_L52
       \<lparr>path_item_id = 0, query_q = Some ''ab'', query_q_list = [], body_item = None,
        body_user = None, body_foo = None\<rparr> ([] :: real heap) = (Unprocessable Too_short, [])
   \<and> status_code (fst (serve Items_L9
       \<lparr>path_item_id = 0, query_q = Some [], query_q_list = [], body_item = None,
        body_user = None, body_foo = None\<rparr> ([] :: real heap))) = 422"
  using
    short_q_rejected [of Readers_L52
      "\<lparr>required = False, min_length = Some 3, max_length = None, regex = None\<rparr>"
      "\<lparr>path_item_id = 0, query_q = Some ''ab'', query_q_list = [], body_item = None,
        body_user = None, body_foo = None\<rparr>" "''ab''" "[] :: real heap"]
    short_q_rejected [of Items_L9
      "\<lparr>required = False, min_length = Some 3, max_length = Some 50,
        regex = Some ''^fixedquery$''\<rparr>"
      "\<lparr>path_item_id = 0, query_q = Some [], query_q_list = [], body_item = None,
        body_user = None, body_foo = None\<rparr>" "[]" "[] :: real heap"]
  by (simp add: status_code_def)

text \<open>
  C7. No handler changes an item or a user that it receives: each of the three handlers
  that take one (PUT \<^verbatim>\<open>/items/{item_id}\<close>, both definitions, and GET \<^verbatim>\<open>/singular/{item_id}\<close>)
  puts the record into its mapping with every field as it was constructed.
\<close>

theorem item_and_user_unchanged:
  "(\<exists>d. returned (update_item_L184 i q (Some it) h) = PDict d
        \<and> map_of d ''item'' = Some (PItem it))
   \<and> (\<exists>d. returned (update_item_L203 i it u h) = PDict d
        \<and> map_of d ''item'' = Some (PItem it) \<and> map_of d ''user'' = Some (PUser u))
   \<and> (\<exists>d. returned (singular_value i it u foo h) = PDict d
        \<and> map_of d ''item'' = Some (PItem it) \<and> map_of d ''user'' = Some (PUser u))"
proof (intro conjI)
  show "\<exists>d. returned (update_item_L184 i q (Some it) h) = PDict d
      \<and> map_of d ''item'' = Some (PItem it)"
    by (cases q) (simp_all add: returned_update_item_L184)
  show "\<exists>d. returned (update_item_L203 i it u h) = PDict d
      \<and> map_of d ''item'' = Some (PItem it) \<and> map_of d ''user'' = Some (PUser u)"
    by (simp add: returned_update_item_L203)
  show "\<exists>d. returned (singular_value i it u foo h) = PDict d
      \<and> map_of d ''item'' = Some (PItem it) \<and> map_of d ''user'' = Some (PUser u)"
    by (simp add: returned_singular_value)
qed

text \<open>
  C8. A handler behind a declared numeric path constraint is called only with an
  \<open>item_id\<close> that satisfies the constraint, and a request whose \<open>item_id\<close> violates it is
  answered by a validation error with the heap as it was, so no handler code has run. For
  GET \<^verbatim>\<open>/items1/{item_id}\<close> the handler \<^verbatim>\<open>read_items1\<close> is called only with \<open>item_id > 1\<close>; for
  PUT \<^verbatim>\<open>/items/{item_id}\<close> the handler \<^verbatim>\<open>update_item\<close> of line 184 is called only with
  \<open>0 \<le> item_id \<le> 1000\<close>.
\<close>

theorem path_constraints_enforced:
  fixes rq :: "'f request" and h :: "'f heap"
  shows "(\<forall>r d f. p_decl r = Some d \<longrightarrow> bound_handler r rq = Inr f \<longrightarrow>
            (\<forall>b. gt d = Some b \<longrightarrow> b < path_item_id rq) \<and>
            (\<forall>b. ge d = Some b \<longrightarrow> b \<le> path_item_id rq) \<and>
            (\<forall>b. lt d = Some b \<longrightarrow> path_item_id rq < b) \<and>
            (\<forall>b. le d = Some b \<longrightarrow> path_item_id rq \<le> b))
       \<and> (\<forall>r d e. p_decl r = Some d \<longrightarrow> path_param d (path_item_id rq) = Inl e \<longrightarrow>
            serve r rq h = (Unprocessable e, h))
       \<and> (\<forall>f. bound_handler Items1_L165 rq = Inr f \<longrightarrow>
            1 < path_item_id rq \<and> (\<exists>q. f = read_items1 (path_item_id rq) q))
       \<and> (\<forall>f. bound_handler Put_item_L183 rq = Inr f \<longrightarrow>
            0 \<le> path_item_id rq \<and> path_item_id rq \<le> 1000 \<and>
            (\<exists>q item. f = update_item_L184 (path_item_id rq) q item))
       \<and> (\<not> 1 < path_item_id rq \<longrightarrow> serve Items1_L165 rq h = (Unprocessable Not_gt, h))
       \<and> (\<not> (0 \<le> path_item_id rq \<and> path_item_id rq \<le> 1000) \<longrightarrow>
            (\<exists>e. serve Put_item_L183 rq h = (Unprocessable e, h)))"
proof (intro conjI allI impI)
  fix r d f b
  assume "p_decl r = Some d" "bound_handler r rq = Inr f" "gt d = Some b"
  then show "b < path_item_id rq"
    by (cases r) (auto simp: path_of_def path_param_def and_then_def split: if_splits)
next
  fix r d f b
  assume "p_decl r = Some d" "bound_handler r rq = Inr f" "ge d = Some b"
  then show "b \<le> path_item_id rq"
    by (cases r) (auto simp: path_of_def path_param_def and_then_def split: if_splits)
next
  fix r d f b
  assume "p_decl r = Some d" "bound_handler r rq = Inr f" "lt d = Some b"
  then show "path_item_id rq < b"
    by (cases r) (auto simp: path_of_def path_param_def and_then_def split: if_splits)
next
  fix r d f b
  assume "p_decl r = Some d" "bound_handler r rq = Inr f" "le d = Some b"
  then show "path_item_id rq \<le> b"
    by (cases r) (auto simp: path_of_def path_param_def and_then_def split: if_splits)
next
  fix r d e
  assume "p_decl r = Some d" "path_param d (path_item_id rq) = Inl e"
  then have "bound_handler r rq = Inl e"
    by (cases r) (auto simp: path_of_def and_then_def)
  then show "serve r rq h = (Unprocessable e, h)"
    by (rule serve_Inl)
next
  fix f assume a: "bound_handler Items1_L165 rq = Inr f"
  then show "1 < path_item_id rq"
    by (auto simp: path_of_def path_param_def and_then_def split: if_splits)
  from a show "\<exists>q. f = read_items1 (path_item_id rq) q"
    by (auto simp: path_of_def path_param_def and_then_def split: if_splits sum.splits)
next
  fix f assume a: "bound_handler Put_item_L183 rq = Inr f"
  then show "0 \<le> path_item_id rq" "path_item_id rq \<le> 1000"
    by (auto simp: path_of_def path_param_def and_then_def split: if_splits)
  from a show "\<exists>q item. f = update_item_L184 (path_item_id rq) q item"
    by (auto simp: path_of_def path_param_def and_then_def split: if_splits sum.splits)
next
  assume "\<not> 1 < path_item_id rq"
  then show "serve Items1_L165 rq h = (Unprocessable Not_gt, h)"
    by (simp add: serve_def path_of_def path_param_def and_then_def)
next
  assume "\<not> (0 \<le> path_item_id rq \<and> path_item_id rq \<le> 1000)"
  then show "\<exists>e. serve Put_item_L183 rq h = (Unprocessable e, h)"
    by (auto simp: serve_def path_of_def path_param_def and_then_def)
qed

theorem path_constraints_enforced_witness:
  "bound_handler Items1_L165
       \<lparr>path_item_id = 2, query_q = Some ''abc'', query_q_list = [], body_item = None,
        body_user = None, body_foo = None\<rparr> = Inr (read_items1 2 ''abc'' :: real handler)
   \<and> serve Items1_L165
       \<lparr>path_item_id = 1, query_q = Some ''abc'', query_q_list = [], body_item = None,
        body_user = None, body_foo = None\<rparr> ([] :: real heap) = (Unprocessable Not_gt, [])
   \<and> bound_handler Put_item_L183
       \<lparr>path_item_id = 1000, query_q = None, query_q_list = [], body_item = None,
        body_user = None, body_foo = None\<rparr> = Inr (update_item_L184 1000 None None :: real handler)
   \<and> (\<exists>e. serve Put_item_L183
       \<lparr>path_item_id = 1001, query_q = None, query_q_list = [], body_item = None,
        body_user = None, body_foo = None\<rparr> ([] :: real heap) = (Unprocessable e, []))
   \<and> (\<exists>e. serve Put_item_L183
       \<lparr>path_item_id = - 1, query_q = None, query_q_list = [], body_item = None,
        body_user = None, body_foo = None\<rparr> ([] :: real heap) = (Unprocessable e, []))"
  using
    path_constraints_enforced [of
      "\<lparr>path_item_id = 2, query_q = Some ''abc'', query_q_list = [], body_item = None,
        body_user = None, body_foo = None\<rparr> :: real request" "[]"]
    path_constraints_enforced [of
      "\<lparr>path_item_id = 1, query_q = Some ''abc'', query_q_list = [], body_item = None,
        body_user = None, body_foo = None\<rparr> :: real request" "[]"]
    path_constraints_enforced [of
      "\<lparr>path_item_id = 1000, query_q = None, query_q_list = [], body_item = None,
        body_user = None, body_foo = None\<rparr> :: real request" "[]"]
    path_constraints_enforced [of
      "\<lparr>path_item_id = 1001, query_q = None, query_q_list = [], body_item = None,
        body_user = None, body_foo = None\<rparr> :: real request" "[]"]
    path_constraints_enforced [of
      "\<lparr>path_item_id = - 1, query_q = None, query_q_list = [], body_item = None,
        body_user = None, body_foo = None\<rparr> :: real request" "[]"]
  by (simp add: validation_defs body_item_opt_def)

text \<open>
  C9, as stated, fails: on GET \<^verbatim>\<open>/posts/\<close> the value \<^verbatim>\<open>fixedquery\<close> followed by a newline
  passes the declared constraints (11 characters, and \<^verbatim>\<open>$\<close> matches before a final
  newline), reaches the handler body and is returned under the key \<^verbatim>\<open>q\<close>; it is not the
  string \<^verbatim>\<open>fixedquery\<close>.
\<close>

theorem newline_after_fixedquery_accepted:
  "bound_handler Posts_L77
       \<lparr>path_item_id = 0, query_q = Some (''fixedquery'' @ [CHR 0x0A]), query_q_list = [],
        body_item = None, body_user = None, body_foo = None\<rparr>
     = Inr (read_posts (Some (''fixedquery'' @ [CHR 0x0A])) :: real handler)
   \<and> fst (serve Posts_L77
       \<lparr>path_item_id = 0, query_q = Some (''fixedquery'' @ [CHR 0x0A]), query_q_list = [],
        body_item = None, body_user = None, body_foo = None\<rparr> ([] :: real heap))
     = Success (PDict [(''posts'',
           PList [PDict [(''post_id'', PStr ''Foo'')], PDict [(''post_id'', PStr ''Bar'')]]),
         (''q'', PStr (''fixedquery'' @ [CHR 0x0A]))])
   \<and> ''fixedquery'' @ [CHR 0x0A] \<noteq> ''fixedquery''"
proof -
  let ?rq = "\<lparr>path_item_id = 0, query_q = Some (''fixedquery'' @ [CHR 0x0A]), query_q_list = [],
        body_item = None, body_user = None, body_foo = None\<rparr> :: real request"
  have m: "re_match ''^fixedquery$'' (''fixedquery'' @ [CHR 0x0A])"
    unfolding fixedquery_matches by blast
  have b: "bound_handler Posts_L77 ?rq = Inr (read_posts (Some (''fixedquery'' @ [CHR 0x0A])))"
    using m by (simp add: validation_defs)
  show ?thesis
    using b serve_Inr [OF b, of "[]"] by (simp add: returned_read_posts)
qed

text \<open>
  C9, amended. On the routes that declare the pattern \<^verbatim>\<open>^fixedquery$\<close> for \<open>q\<close>
  (GET \<^verbatim>\<open>/items/\<close> of line 9 and GET \<^verbatim>\<open>/posts/\<close>), a \<open>q\<close> that reaches the handler body is
  absent, or the string \<^verbatim>\<open>fixedquery\<close>, or that string followed by one newline character;
  every other supplied \<open>q\<close> is answered by a validation error and no handler code runs.
\<close>

theorem fixedquery_regex_enforced:
  assumes "q_decl r = Some d" and "regex d = Some ''^fixedquery$''"
  shows "(\<forall>f. bound_handler r rq = Inr f \<longrightarrow>
            (query_q rq = None \<or> query_q rq = Some ''fixedquery''
               \<or> query_q rq = Some (''fixedquery'' @ [CHR 0x0A]))
            \<and> (f = read_items_L10 (query_q rq) \<or> f = read_posts (query_q rq)))
       \<and> (\<forall>s. query_q rq = Some s \<longrightarrow> s \<noteq> ''fixedquery'' \<longrightarrow>
            s \<noteq> ''fixedquery'' @ [CHR 0x0A] \<longrightarrow>
            (\<exists>e. serve r rq h = (Unprocessable e, h)))"
proof -
  from assms have r: "r = Items_L9 \<or> r = Posts_L77"
    by (simp add: regex_routes)
  have accepted: "query_q rq = None \<or> query_q rq = Some ''fixedquery''
        \<or> query_q rq = Some (''fixedquery'' @ [CHR 0x0A])"
      and called: "f = read_items_L10 (query_q rq) \<or> f = read_posts (query_q rq)"
    if "bound_handler r rq = Inr f" for f
    using r that
    by (auto simp: validation_defs fixedquery_matches split: option.splits if_splits)
  have rejected: "\<exists>e. serve r rq h = (Unprocessable e, h)"
    if "query_q rq = Some s" "s \<noteq> ''fixedquery''" "s \<noteq> ''fixedquery'' @ [CHR 0x0A]" for s
  proof -
    from r that have "\<exists>e. bound_handler r rq = Inl e"
      by (auto simp: validation_defs fixedquery_matches)
    then show ?thesis
      by (auto simp: serve_Inl)
  qed
  from accepted called rejected show ?thesis
    by blast
qed

theorem fixedquery_regex_enforced_witness:
  "q_decl Posts_L77 = Some \<lparr>required = False, min_length = Some 3, max_length = Some 50,
       regex = Some ''^fixedquery$''\<rparr>
   \<and> bound_handler Posts_L77
       \<lparr>path_item_id = 0, query_q = Some ''fixedquery'', query_q_list = [],
        body_item = None, body_user = None, body_foo = None\<rparr>
     = Inr (read_posts (Some ''fixedquery'') :: real handler)
   \<and> (\<exists>e. serve Items_L9
       \<lparr>path_item_id = 0, query_q = Some ''fixedquery2'', query_q_list = [],
        body_item = None, body_user = None, body_foo = None\<rparr> ([] :: real heap)
     = (Unprocessable e, []))"
  using
    fixedquery_regex_enforced [of Posts_L77
      "\<lparr>required = False, min_length = Some 3, max_length = Some 50,
        regex = Some ''^fixedquery$''\<rparr>"
      "\<lparr>path_item_id = 0, query_q = Some ''fixedquery'', query_q_list = [],
        body_item = None, body_user = None, body_foo = None\<rparr> :: real request" "[]"]
    fixedquery_regex_enforced [of Items_L9
      "\<lparr>required = False, min_length = Some 3, max_length = Some 50,
        regex = Some ''^fixedquery$''\<rparr>"
      "\<lparr>path_item_id = 0, query_q = Some ''fixedquery2'', query_q_list = [],
        body_item = None, body_user = None, body_foo = None\<rparr> :: real request" "[]"]
  by (simp add: validation_defs fixedquery_matches)

text \<open>
  C10. Every handler is stateless and deterministic: whatever the heap holds when it is
  called, a handler returns the same value for the same parameters (so two invocations
  with equal parameters return equal results, and nothing left by another request is
  read), and every object that existed before the call is unchanged after it (nothing
  that another request can see is written).
\<close>

theorem handlers_stateless:
  "stateless (read_items_L10 q) \<and> stateless (read_items2 s) \<and> stateless (read_items3 s)
   \<and> stateless (read_items_L34 s) \<and> stateless (read_items_L45 ql) \<and> stateless (read_readers q)
   \<and> stateless (read_readers_alias q) \<and> stateless (read_posts q) \<and> stateless (read_item i q)
   \<and> stateless (read_items_L150 s i) \<and> stateless (read_items1 i s)
   \<and> stateless (update_item_L184 i q item) \<and> stateless (update_item_L203 i it u)
   \<and> stateless (singular_value i it u foo)"
  unfolding stateless_def
  by (intro conjI allI) (simp_all add: handler_defs heap_ops split: option.splits)

end
